theory Spec2Isabelle
  imports Main
begin

section \<open>Python string operations used by the compliance modules\<close>

text \<open>
  Message texts, phone numbers and identifiers are Python \<open>str\<close> values. They are modelled
  as \<open>string\<close>, one \<open>char\<close> per character, for ASCII text: the character classes below
  are those of Python on code points below 128, and a character from 128 on is left
  unchanged by \<open>lower\<close> and belongs to no class.
\<close>

definition ord :: "char \<Rightarrow> nat" where
  "ord c = of_char c"

text \<open>\<open>str.isspace\<close> on one character: tab, line feed, vertical tab, form feed, carriage
  return, the four separators 28 to 31, and the space.\<close>

definition isspace :: "char \<Rightarrow> bool" where
  "isspace c = (let n = ord c in (9 \<le> n \<and> n \<le> 13) \<or> (28 \<le> n \<and> n \<le> 32))"

definition isdigit :: "char \<Rightarrow> bool" where
  "isdigit c = (let n = ord c in 48 \<le> n \<and> n \<le> 57)"

definition isalnum :: "char \<Rightarrow> bool" where
  "isalnum c = (let n = ord c in
     (48 \<le> n \<and> n \<le> 57) \<or> (65 \<le> n \<and> n \<le> 90) \<or> (97 \<le> n \<and> n \<le> 122))"

definition lower_char :: "char \<Rightarrow> char" where
  "lower_char c = (let n = ord c in if 65 \<le> n \<and> n \<le> 90 then char_of (n + 32) else c)"

definition lower :: "string \<Rightarrow> string" where
  "lower s = map lower_char s"

definition strip :: "string \<Rightarrow> string" where
  "strip s = rev (dropWhile isspace (rev (dropWhile isspace s)))"

text \<open>\<open>s.startswith(p)\<close>.\<close>

fun startswith :: "string \<Rightarrow> string \<Rightarrow> bool" where
  "startswith s [] = True"
| "startswith [] (p # ps) = False"
| "startswith (c # cs) (p # ps) = (c = p \<and> startswith cs ps)"

text \<open>\<open>p in s\<close> on strings: \<open>p\<close> occurs in \<open>s\<close> as a contiguous substring.\<close>

fun contains :: "string \<Rightarrow> string \<Rightarrow> bool" where
  "contains p [] = (p = [])"
| "contains p (c # cs) = (startswith (c # cs) p \<or> contains p cs)"

text \<open>\<open>s.split()\<close>: the maximal runs of non-whitespace characters, in order. The first
  argument is the word being read.\<close>

fun split_acc :: "string \<Rightarrow> string \<Rightarrow> string list" where
  "split_acc w [] = (if w = [] then [] else [w])"
| "split_acc w (c # cs) =
     (if isspace c then (if w = [] then split_acc [] cs else w # split_acc [] cs)
      else split_acc (w @ [c]) cs)"

definition split :: "string \<Rightarrow> string list" where
  "split s = split_acc [] s"

section \<open>Opt-out detection (modules/compliance/optout.py)\<close>

definition OPT_OUT_KEYWORDS :: "string list" where
  "OPT_OUT_KEYWORDS =
    [''stop'', ''unsubscribe'', ''cancel'', ''quit'', ''end'', ''optout'', ''opt-out'',
     ''opt out'', ''remove me'', ''take me off'', ''don't text'', ''dont text'',
     ''stop texting'', ''leave me alone'', ''wrong number'', ''not interested'',
     ''do not contact'', ''never contact'', ''stop messaging'', ''stop contacting'',
     ''unsubscribe me'', ''remove from list'', ''take off list'', ''no more texts'',
     ''no more messages'', ''stop sending'', ''please stop'', ''pls stop'']"

definition OPT_OUT_NEGATIONS :: "string list" where
  "OPT_OUT_NEGATIONS =
    [''don't stop'', ''dont stop'', ''do not stop'',
     ''not yet'', ''keep texting'', ''keep messaging'',
     ''don't remove'', ''dont remove'', ''do not remove'',
     ''don't unsubscribe'', ''dont unsubscribe'']"

definition exact_keywords :: "string list" where
  "exact_keywords = [''stop'', ''unsubscribe'', ''cancel'', ''quit'', ''end'', ''optout'']"

definition stop_reinforcers :: "string list" where
  "stop_reinforcers =
    [''stop text'', ''stop messag'', ''stop contact'', ''stop send'', ''pls stop'', ''please stop'']"

text \<open>The guard on the bare phrase \<open>stop\<close>: the cleaned message is shorter than 20
  characters, or the message starts with \<open>stop\<close>, or it contains a reinforcing phrase.\<close>

definition stop_guard :: "string \<Rightarrow> string \<Rightarrow> bool" where
  "stop_guard msg_lower msg_clean =
     (length msg_clean < 20 \<or> startswith msg_lower ''stop'' \<or>
      list_ex (\<lambda>w. contains w msg_lower) stop_reinforcers)"

text \<open>The loop over \<open>OPT_OUT_KEYWORDS\<close>: the first contained phrase that is not the bare
  \<open>stop\<close> returns True; the bare \<open>stop\<close> returns True under its guard and otherwise the
  loop goes on with the next phrase.\<close>

fun phrase_loop :: "string \<Rightarrow> string \<Rightarrow> string list \<Rightarrow> bool" where
  "phrase_loop msg_lower msg_clean [] = False"
| "phrase_loop msg_lower msg_clean (phrase # rest) =
     (if contains phrase msg_lower then
        (if phrase = ''stop'' then
           (if stop_guard msg_lower msg_clean then True
            else phrase_loop msg_lower msg_clean rest)
         else True)
      else phrase_loop msg_lower msg_clean rest)"

definition is_optout :: "string \<Rightarrow> bool" where
  "is_optout message =
     (if message = [] then False
      else
        let msg_lower = strip (lower message);
            msg_clean = filter (\<lambda>c. isalnum c \<or> isspace c) msg_lower
        in if list_ex (\<lambda>negation. contains negation msg_lower) OPT_OUT_NEGATIONS then False
           else
             let words = split msg_clean
             in if length words = 1 \<and> hd words \<in> set exact_keywords then True
                else phrase_loop msg_lower msg_clean OPT_OUT_KEYWORDS)"

section \<open>Timezone engine (modules/compliance/timezone_engine.py)\<close>

definition AREA_CODE_TIMEZONES :: "(string \<times> string) list" where
  "AREA_CODE_TIMEZONES =
    [
     (''201'', ''America/New_York''), (''202'', ''America/New_York''), (''203'', ''America/New_York''),
     (''212'', ''America/New_York''), (''215'', ''America/New_York''), (''216'', ''America/New_York''),
     (''301'', ''America/New_York''), (''302'', ''America/New_York''), (''305'', ''America/New_York''),
     (''313'', ''America/New_York''), (''404'', ''America/New_York''), (''407'', ''America/New_York''),
     (''410'', ''America/New_York''), (''412'', ''America/New_York''), (''470'', ''America/New_York''),
     (''513'', ''America/New_York''), (''516'', ''America/New_York''), (''517'', ''America/New_York''),
     (''603'', ''America/New_York''), (''607'', ''America/New_York''), (''617'', ''America/New_York''),
     (''703'', ''America/New_York''), (''704'', ''America/New_York''), (''718'', ''America/New_York''),
     (''727'', ''America/New_York''), (''732'', ''America/New_York''), (''757'', ''America/New_York''),
     (''786'', ''America/New_York''), (''802'', ''America/New_York''), (''803'', ''America/New_York''),
     (''804'', ''America/New_York''), (''810'', ''America/New_York''), (''813'', ''America/New_York''),
     (''814'', ''America/New_York''), (''828'', ''America/New_York''), (''845'', ''America/New_York''),
     (''850'', ''America/New_York''), (''856'', ''America/New_York''), (''860'', ''America/New_York''),
     (''862'', ''America/New_York''), (''863'', ''America/New_York''), (''864'', ''America/New_York''),
     (''865'', ''America/New_York''), (''904'', ''America/New_York''), (''908'', ''America/New_York''),
     (''910'', ''America/New_York''), (''912'', ''America/New_York''), (''914'', ''America/New_York''),
     (''917'', ''America/New_York''), (''919'', ''America/New_York''), (''929'', ''America/New_York''),
     (''941'', ''America/New_York''), (''973'', ''America/New_York''), (''978'', ''America/New_York''),
     (''980'', ''America/New_York''), (''205'', ''America/Chicago''), (''214'', ''America/Chicago''),
     (''217'', ''America/Chicago''), (''251'', ''America/Chicago''), (''256'', ''America/Chicago''),
     (''281'', ''America/Chicago''), (''309'', ''America/Chicago''), (''312'', ''America/Chicago''),
     (''314'', ''America/Chicago''), (''316'', ''America/Chicago''), (''318'', ''America/Chicago''),
     (''319'', ''America/Chicago''), (''331'', ''America/Chicago''), (''334'', ''America/Chicago''),
     (''337'', ''America/Chicago''), (''361'', ''America/Chicago''), (''409'', ''America/Chicago''),
     (''414'', ''America/Chicago''), (''417'', ''America/Chicago''), (''430'', ''America/Chicago''),
     (''432'', ''America/Chicago''), (''469'', ''America/Chicago''), (''479'', ''America/Chicago''),
     (''501'', ''America/Chicago''), (''504'', ''America/Chicago''), (''507'', ''America/Chicago''),
     (''512'', ''America/Chicago''), (''515'', ''America/Chicago''), (''563'', ''America/Chicago''),
     (''573'', ''America/Chicago''), (''601'', ''America/Chicago''), (''608'', ''America/Chicago''),
     (''612'', ''America/Chicago''), (''618'', ''America/Chicago''), (''620'', ''America/Chicago''),
     (''630'', ''America/Chicago''), (''636'', ''America/Chicago''), (''641'', ''America/Chicago''),
     (''651'', ''America/Chicago''), (''660'', ''America/Chicago''), (''662'', ''America/Chicago''),
     (''682'', ''America/Chicago''), (''708'', ''America/Chicago''), (''712'', ''America/Chicago''),
     (''713'', ''America/Chicago''), (''715'', ''America/Chicago''), (''773'', ''America/Chicago''),
     (''785'', ''America/Chicago''), (''806'', ''America/Chicago''), (''815'', ''America/Chicago''),
     (''816'', ''America/Chicago''), (''817'', ''America/Chicago''), (''830'', ''America/Chicago''),
     (''832'', ''America/Chicago''), (''847'', ''America/Chicago''), (''870'', ''America/Chicago''),
     (''901'', ''America/Chicago''), (''903'', ''America/Chicago''), (''913'', ''America/Chicago''),
     (''918'', ''America/Chicago''), (''920'', ''America/Chicago''), (''936'', ''America/Chicago''),
     (''940'', ''America/Chicago''), (''956'', ''America/Chicago''), (''972'', ''America/Chicago''),
     (''979'', ''America/Chicago''), (''303'', ''America/Denver''), (''307'', ''America/Denver''),
     (''385'', ''America/Denver''), (''406'', ''America/Denver''), (''505'', ''America/Denver''),
     (''575'', ''America/Denver''), (''602'', ''America/Phoenix''), (''623'', ''America/Phoenix''),
     (''480'', ''America/Phoenix''), (''520'', ''America/Phoenix''), (''928'', ''America/Phoenix''),
     (''605'', ''America/Denver''), (''701'', ''America/Denver''), (''702'', ''America/Los_Angeles''),
     (''720'', ''America/Denver''), (''775'', ''America/Los_Angeles''), (''801'', ''America/Denver''),
     (''915'', ''America/Denver''), (''970'', ''America/Denver''), (''206'', ''America/Los_Angeles''),
     (''209'', ''America/Los_Angeles''), (''213'', ''America/Los_Angeles''), (''253'', ''America/Los_Angeles''),
     (''310'', ''America/Los_Angeles''), (''323'', ''America/Los_Angeles''), (''360'', ''America/Los_Angeles''),
     (''408'', ''America/Los_Angeles''), (''415'', ''America/Los_Angeles''), (''425'', ''America/Los_Angeles''),
     (''442'', ''America/Los_Angeles''), (''510'', ''America/Los_Angeles''), (''530'', ''America/Los_Angeles''),
     (''541'', ''America/Los_Angeles''), (''559'', ''America/Los_Angeles''), (''562'', ''America/Los_Angeles''),
     (''619'', ''America/Los_Angeles''), (''626'', ''America/Los_Angeles''), (''650'', ''America/Los_Angeles''),
     (''657'', ''America/Los_Angeles''), (''661'', ''America/Los_Angeles''), (''669'', ''America/Los_Angeles''),
     (''707'', ''America/Los_Angeles''), (''714'', ''America/Los_Angeles''), (''760'', ''America/Los_Angeles''),
     (''805'', ''America/Los_Angeles''), (''818'', ''America/Los_Angeles''), (''831'', ''America/Los_Angeles''),
     (''858'', ''America/Los_Angeles''), (''909'', ''America/Los_Angeles''), (''916'', ''America/Los_Angeles''),
     (''925'', ''America/Los_Angeles''), (''949'', ''America/Los_Angeles''), (''951'', ''America/Los_Angeles''),
     (''907'', ''America/Anchorage''), (''808'', ''Pacific/Honolulu'')]"

definition DEFAULT_QUIET_START :: int where
  "DEFAULT_QUIET_START = 21"

definition DEFAULT_QUIET_END :: int where
  "DEFAULT_QUIET_END = 8"

definition DEFAULT_TIMEZONE :: string where
  "DEFAULT_TIMEZONE = ''America/Chicago''"

text \<open>
  The wall clock and the timezone database are outside the program. A \<open>local_datetime\<close>
  is what \<open>datetime.now(tz)\<close> returns, with the date as a day number; a \<open>clock\<close> says
  which timezone names \<open>pytz.timezone\<close> accepts (any other raises
  \<open>UnknownTimeZoneError\<close>), what the local time is in each, and how
  \<open>astimezone(pytz.UTC)\<close> turns a local time of a zone into a UTC instant (in seconds).
\<close>

record local_datetime =
  ld_day :: int
  ld_hour :: int
  ld_minute :: int
  ld_second :: int
  ld_microsecond :: int

record clock =
  known_timezone :: "string \<Rightarrow> bool"
  local_now :: "string \<Rightarrow> local_datetime"
  to_utc :: "string \<Rightarrow> local_datetime \<Rightarrow> int"

definition get_timezone_from_area_code :: "string \<Rightarrow> string option" where
  "get_timezone_from_area_code phone =
     (let digits = filter isdigit phone;
          digits = (if startswith digits ''1'' \<and> length digits = 11 then tl digits else digits)
      in if length digits \<ge> 10 then map_of AREA_CODE_TIMEZONES (take 3 digits) else None)"

text \<open>A Python \<open>Optional[str]\<close> is truthy when it is a non-empty string.\<close>

definition truthy :: "string option \<Rightarrow> bool" where
  "truthy v = (case v of None \<Rightarrow> False | Some s \<Rightarrow> s \<noteq> [])"

definition get_contact_timezone ::
  "string option \<Rightarrow> string option \<Rightarrow> string option \<Rightarrow> string \<times> string" where
  "get_contact_timezone contact_tz phone location_tz =
     (if truthy contact_tz then (the contact_tz, ''contact'')
      else
        case (if truthy phone then get_timezone_from_area_code (the phone) else None) of
          Some tz \<Rightarrow> (tz, ''area_code'')
        | None \<Rightarrow>
            if truthy location_tz then (the location_tz, ''location'')
            else (DEFAULT_TIMEZONE, ''default''))"

text \<open>The zone whose local time is read: an unknown name falls back to the default.\<close>

definition resolve_zone :: "clock \<Rightarrow> string \<Rightarrow> string" where
  "resolve_zone clk timezone_str =
     (if known_timezone clk timezone_str then timezone_str else DEFAULT_TIMEZONE)"

definition current_hour :: "clock \<Rightarrow> string \<Rightarrow> int" where
  "current_hour clk timezone_str = ld_hour (local_now clk (resolve_zone clk timezone_str))"

definition is_quiet_hours :: "clock \<Rightarrow> string \<Rightarrow> int \<Rightarrow> int \<Rightarrow> bool" where
  "is_quiet_hours clk timezone_str quiet_start quiet_end =
     (let hour = current_hour clk timezone_str
      in if quiet_start > quiet_end then hour \<ge> quiet_start \<or> hour < quiet_end
         else quiet_start \<le> hour \<and> hour < quiet_end)"

text \<open>\<open>get_next_send_time\<close>: today at \<open>quiet_end\<close> when the local hour is before it,
  otherwise the next day at \<open>quiet_end\<close>, as a UTC instant.\<close>

definition get_next_send_time :: "clock \<Rightarrow> string \<Rightarrow> int \<Rightarrow> int" where
  "get_next_send_time clk timezone_str quiet_end =
     (let tz = resolve_zone clk timezone_str;
          now = local_now clk tz;
          day = (if ld_hour now < quiet_end then ld_day now else ld_day now + 1);
          next_send_local = \<lparr>ld_day = day, ld_hour = quiet_end, ld_minute = 0,
                              ld_second = 0, ld_microsecond = 0\<rparr>
      in to_utc clk tz next_send_local)"

section \<open>Transactional outbox (modules/crm\_core/outbox.py)\<close>

datatype OutboxStatus = PENDING | SENDING | SENT | FAILED | DEAD_LETTER | CANCELLED

text \<open>The value of each member of the enum, and the enum's lookup by value
  (\<open>OutboxStatus(v)\<close>, which raises \<open>ValueError\<close> on any other string).\<close>

fun status_value :: "OutboxStatus \<Rightarrow> string" where
  "status_value PENDING = ''pending''"
| "status_value SENDING = ''sending''"
| "status_value SENT = ''sent''"
| "status_value FAILED = ''failed''"
| "status_value DEAD_LETTER = ''dead_letter''"
| "status_value CANCELLED = ''cancelled''"

definition OutboxStatus_members :: "OutboxStatus list" where
  "OutboxStatus_members = [PENDING, SENDING, SENT, FAILED, DEAD_LETTER, CANCELLED]"

definition OutboxStatus_of_value :: "string \<Rightarrow> OutboxStatus option" where
  "OutboxStatus_of_value v = find (\<lambda>m. status_value m = v) OutboxStatus_members"

definition RETRY_BACKOFF :: "int list" where
  "RETRY_BACKOFF = [60, 300, 900, 1800, 3600]"

text \<open>Python list indexing: a negative index counts from the end, and an index outside
  the list raises \<open>IndexError\<close> (here \<open>None\<close>).\<close>

definition py_index :: "'a list \<Rightarrow> int \<Rightarrow> 'a option" where
  "py_index xs i =
     (if 0 \<le> i \<and> i < int (length xs) then Some (xs ! nat i)
      else if i < 0 \<and> - int (length xs) \<le> i then Some (xs ! nat (int (length xs) + i))
      else None)"

text \<open>
  A row of table \<open>outbox\<close>. Instants are seconds on the UTC time line; the JSON columns
  \<open>payload\<close> and \<open>destination_config\<close> are association lists from a top-level key to the
  text of its value, which is what the operator \<open>->>\<close> reads.
\<close>

record outbox_row =
  row_id :: string
  object_type :: string
  object_id :: string
  destination :: string
  destination_config :: "(string \<times> string) list"
  payload :: "(string \<times> string) list"
  idempotency_key :: "string option"
  status :: OutboxStatus
  attempt_count :: int
  max_attempts :: int
  last_error :: "string option"
  last_error_at :: "int option"
  next_attempt_at :: int
  created_at :: int
  updated_at :: int
  sent_at :: "int option"

type_synonym outbox = "outbox_row list"

text \<open>\<open>UPDATE outbox SET ... WHERE ...\<close>: every row the condition selects is rewritten,
  every other row is kept.\<close>

definition sql_update :: "(outbox_row \<Rightarrow> bool) \<Rightarrow> (outbox_row \<Rightarrow> outbox_row) \<Rightarrow> outbox \<Rightarrow> outbox" where
  "sql_update cond set_cols tbl = map (\<lambda>r. if cond r then set_cols r else r) tbl"

text \<open>Modelled from the spec: the column defaults of table \<open>outbox\<close>, whose schema is not
  among the sources. A new row is \<open>pending\<close> with no attempt made, at most five attempts,
  due at once, and stamped with the time of the insert.\<close>

definition new_row ::
  "int \<Rightarrow> string \<Rightarrow> string \<Rightarrow> string \<Rightarrow> string \<Rightarrow> (string \<times> string) list \<Rightarrow>
   (string \<times> string) list \<Rightarrow> string option \<Rightarrow> outbox_row" where
  "new_row now new_id otype oid dest config pl key =
     \<lparr>row_id = new_id, object_type = otype, object_id = oid, destination = dest,
      destination_config = config, payload = pl, idempotency_key = key,
      status = PENDING, attempt_count = 0, max_attempts = 5, last_error = None,
      last_error_at = None, next_attempt_at = now, created_at = now, updated_at = now,
      sent_at = None\<rparr>"

text \<open>
  \<open>enqueue_outbox\<close>. Both branches of the source run the same statement, on the caller's
  connection or on one from the pool. \<open>now\<close> is the database's \<open>NOW()\<close> and \<open>new_id\<close> the
  identifier the database generates for an inserted row. The insert conflicts when the
  key is not null and a row already carries it; then that row's \<open>updated_at\<close> is set
  and its id returned.
\<close>

definition enqueue_outbox ::
  "outbox \<Rightarrow> int \<Rightarrow> string \<Rightarrow> string \<Rightarrow> string \<Rightarrow> string \<Rightarrow> (string \<times> string) list \<Rightarrow>
   (string \<times> string) list option \<Rightarrow> string option \<Rightarrow> string \<times> outbox" where
  "enqueue_outbox tbl now new_id otype oid dest pl config key =
     (let inserted = (new_id,
            tbl @ [new_row now new_id otype oid dest
                     (case config of None \<Rightarrow> [] | Some c \<Rightarrow> c) pl key])
      in case key of
           None \<Rightarrow> inserted
         | Some k \<Rightarrow>
             (case find (\<lambda>r. idempotency_key r = Some k) tbl of
                None \<Rightarrow> inserted
              | Some r \<Rightarrow>
                  (row_id r,
                   sql_update (\<lambda>x. idempotency_key x = Some k)
                     (\<lambda>x. x\<lparr>updated_at := now\<rparr>) tbl)))"

text \<open>\<open>get_pending_outbox_items\<close>: the rows that are due, by \<open>next_attempt_at\<close>, at most
  \<open>limit\<close> of them. Rows due at the same instant keep the table's order. The row locks
  of \<open>FOR UPDATE SKIP LOCKED\<close> concern other sessions and are not modelled.\<close>

definition claimable :: "int \<Rightarrow> outbox_row \<Rightarrow> bool" where
  "claimable now r =
     ((status r = PENDING \<or> status r = FAILED) \<and> next_attempt_at r \<le> now \<and>
      attempt_count r < max_attempts r)"

definition get_pending_outbox_items :: "outbox \<Rightarrow> int \<Rightarrow> nat \<Rightarrow> outbox_row list" where
  "get_pending_outbox_items tbl now limit =
     take limit (sort_key next_attempt_at (filter (claimable now) tbl))"

definition mark_outbox_sending :: "outbox \<Rightarrow> int \<Rightarrow> string \<Rightarrow> outbox" where
  "mark_outbox_sending tbl now outbox_id =
     sql_update (\<lambda>r. row_id r = outbox_id)
       (\<lambda>r. r\<lparr>status := SENDING, attempt_count := attempt_count r + 1, updated_at := now\<rparr>) tbl"

definition mark_outbox_sent :: "outbox \<Rightarrow> int \<Rightarrow> string \<Rightarrow> outbox" where
  "mark_outbox_sent tbl now outbox_id =
     sql_update (\<lambda>r. row_id r = outbox_id)
       (\<lambda>r. r\<lparr>status := SENT, sent_at := Some now, updated_at := now\<rparr>) tbl"

text \<open>\<open>mark_outbox_failed\<close>. The delay is read from \<open>RETRY_BACKOFF\<close> at index
  \<open>min(attempt_count, len(RETRY_BACKOFF) - 1)\<close>; an index below the list raises before
  the table is written (\<open>None\<close>). One \<open>now\<close> stands for \<open>datetime.utcnow()\<close> and for the
  database's \<open>NOW()\<close>.\<close>

definition backoff_seconds :: "int \<Rightarrow> int option" where
  "backoff_seconds n = py_index RETRY_BACKOFF (min n (int (length RETRY_BACKOFF) - 1))"

definition failed_status :: "int \<Rightarrow> OutboxStatus" where
  "failed_status n = (if n \<ge> 5 then DEAD_LETTER else FAILED)"

definition mark_outbox_failed :: "outbox \<Rightarrow> int \<Rightarrow> string \<Rightarrow> string \<Rightarrow> int \<Rightarrow> outbox option" where
  "mark_outbox_failed tbl now outbox_id error n =
     (case backoff_seconds n of
        None \<Rightarrow> None
      | Some delay \<Rightarrow>
          Some (sql_update (\<lambda>r. row_id r = outbox_id)
            (\<lambda>r. r\<lparr>status := failed_status n, last_error := Some error,
                    last_error_at := Some now, next_attempt_at := now + delay,
                    updated_at := now\<rparr>) tbl))"

text \<open>\<open>replay_outbox_item\<close>: the update names the row by its id alone; the result says
  whether a row was returned.\<close>

definition replay_outbox_item :: "outbox \<Rightarrow> int \<Rightarrow> string \<Rightarrow> bool \<times> outbox" where
  "replay_outbox_item tbl now outbox_id =
     (list_ex (\<lambda>r. row_id r = outbox_id) tbl,
      sql_update (\<lambda>r. row_id r = outbox_id)
        (\<lambda>r. r\<lparr>status := PENDING, attempt_count := 0, next_attempt_at := now,
                updated_at := now\<rparr>) tbl)"

text \<open>\<open>cancel_pending_outbox_for_contact\<close>: the number in the command tag
  \<open>UPDATE n\<close> is the number of rows the condition selected.\<close>

definition cancel_cond :: "string \<Rightarrow> outbox_row \<Rightarrow> bool" where
  "cancel_cond contact_id r =
     ((status r = PENDING \<or> status r = FAILED) \<and> destination r = ''sms'' \<and>
      map_of (payload r) ''contact_id'' = Some contact_id)"

definition cancel_pending_outbox_for_contact :: "outbox \<Rightarrow> int \<Rightarrow> string \<Rightarrow> nat \<times> outbox" where
  "cancel_pending_outbox_for_contact tbl now contact_id =
     (length (filter (cancel_cond contact_id) tbl),
      sql_update (cancel_cond contact_id)
        (\<lambda>r. r\<lparr>status := CANCELLED, updated_at := now\<rparr>) tbl)"

section \<open>Contacts, conversations and messages (modules/crm\_core/executor.py)\<close>

text \<open>
  A contact as the SMS sender and the webhook read it. \<open>dnd_settings\<close> maps a channel name
  to the truth value of what is stored under it. The model \<open>Contact\<close> declares no
  \<open>timezone\<close> attribute. Columns that none of the operations below reads are left out,
  here and in the other tables.
\<close>

record contact =
  contact_id :: string
  location_id :: string
  phone :: "string option"
  dnd :: bool
  dnd_settings :: "(string \<times> bool) list"
  tags :: "string list"

definition get_contact :: "contact list \<Rightarrow> string \<Rightarrow> contact option" where
  "get_contact cs cid = find (\<lambda>c. contact_id c = cid) cs"

definition endswith :: "string \<Rightarrow> string \<Rightarrow> bool" where
  "endswith s p = startswith (rev s) (rev p)"

text \<open>\<open>find_contact_by_phone\<close>: the first contact of the location whose phone, reduced to
  its digits, ends with the last ten digits of the number looked for (with the country
  code 1 put before a number of ten digits).\<close>

definition search_pattern :: "string \<Rightarrow> string" where
  "search_pattern number =
     (let normalized = filter isdigit number;
          normalized = (if length normalized = 10 then ''1'' @ normalized else normalized)
      in drop (length normalized - 10) normalized)"

definition phone_matches :: "string \<Rightarrow> string \<Rightarrow> contact \<Rightarrow> bool" where
  "phone_matches search loc c =
     ((case phone c of None \<Rightarrow> False | Some p \<Rightarrow> endswith (filter isdigit p) search) \<and>
      (loc = [] \<or> location_id c = loc))"

definition find_contact_by_phone :: "contact list \<Rightarrow> string \<Rightarrow> string \<Rightarrow> contact option" where
  "find_contact_by_phone cs number loc = find (phone_matches (search_pattern number) loc) cs"





record conversation =
  conv_id :: string
  conv_location_id :: string
  conv_contact_id :: string
  conv_channel :: string
  conv_status :: string
  conv_updated_at :: int



record message =
  m_conversation_id :: string
  m_contact_id :: string
  m_direction :: string
  m_body :: string
  m_status :: string
  m_external_id :: "string option"

section \<open>The SMS sender (modules/twilio\_sms/executor.py)\<close>

text \<open>
  The Twilio client is outside the program. \<open>client\<close> is \<open>None\<close> when a credential is
  missing from the environment; otherwise it is what \<open>client.messages.create\<close> does with
  a message: it returns a message sid or raises.
\<close>

record twilio_message =
  msg_body :: string
  msg_from :: string
  msg_to :: string
  msg_status_callback :: "string option"

datatype create_result = Created string | TwilioRestException string | OtherException string

record twilio =
  client :: "(twilio_message \<Rightarrow> create_result) option"
  from_number :: string
  status_callback :: "string option"

record send_sms_request =
  sms_to :: string
  sms_body :: string
  sms_location_id :: string
  sms_contact_id :: "string option"
  sms_conversation_id :: "string option"

text \<open>The error texts of \<open>SendSMSResponse\<close>, in the order the source produces them:
  client not configured, contact on the Do Not Disturb list, contact has SMS Do Not
  Disturb, quiet hours active (with the instant the message is deferred to), a Twilio
  error and any other error (with the exception's message).\<close>

datatype sms_error =
    ClientNotConfigured
  | ContactOnDndList
  | ContactHasSmsDnd
  | QuietHoursActive int
  | TwilioError string
  | UnexpectedError string

record send_sms_response =
  success :: bool
  message_sid :: "string option"
  error :: "sms_error option"
  blocked_reason :: "string option"
  deferred_until :: "int option"

definition failure :: "sms_error \<Rightarrow> string option \<Rightarrow> int option \<Rightarrow> send_sms_response" where
  "failure e reason until =
     \<lparr>success = False, message_sid = None, error = Some e, blocked_reason = reason,
      deferred_until = until\<rparr>"

text \<open>The contact lookup of \<open>send_sms\<close>: by id when the request carries one, then by
  phone when that found nothing and the request has a number and a location.\<close>

definition lookup_contact :: "contact list \<Rightarrow> send_sms_request \<Rightarrow> contact option" where
  "lookup_contact cs request =
     (let by_id = (if truthy (sms_contact_id request)
                   then get_contact cs (the (sms_contact_id request)) else None)
      in if by_id = None \<and> sms_to request \<noteq> [] \<and> sms_location_id request \<noteq> []
         then find_contact_by_phone cs (sms_to request) (sms_location_id request)
         else by_id)"

text \<open>The channel flag: \<open>dnd_settings\<close> is a non-empty dict whose entry for \<open>sms\<close> is
  truthy.\<close>

definition sms_dnd :: "contact \<Rightarrow> bool" where
  "sms_dnd c = (dnd_settings c \<noteq> [] \<and> map_of (dnd_settings c) ''sms'' = Some True)"

text \<open>The timezone \<open>send_sms\<close> checks quiet hours in: no contact timezone, the phone of
  the contact or else the number of the request, no location timezone.\<close>

definition send_timezone :: "contact option \<Rightarrow> send_sms_request \<Rightarrow> string" where
  "send_timezone found request =
     fst (get_contact_timezone None
            (case found of Some c \<Rightarrow> phone c | None \<Rightarrow> Some (sms_to request)) None)"

text \<open>What follows the DND gate: the quiet-hours check, then the call of the provider.
  The result holds the response and the provider calls made.\<close>

definition send_after_gate ::
  "(twilio_message \<Rightarrow> create_result) \<Rightarrow> twilio \<Rightarrow> clock \<Rightarrow> contact option \<Rightarrow> send_sms_request \<Rightarrow>
   send_sms_response \<times> twilio_message list" where
  "send_after_gate create tw clk found request =
     (let contact_tz = send_timezone found request
      in if is_quiet_hours clk contact_tz DEFAULT_QUIET_START DEFAULT_QUIET_END then
           (let next_send = get_next_send_time clk contact_tz DEFAULT_QUIET_END
            in (failure (QuietHoursActive next_send) (Some ''quiet_hours'') (Some next_send), []))
         else
           (let params = \<lparr>msg_body = sms_body request, msg_from = from_number tw,
                           msg_to = sms_to request,
                           msg_status_callback =
                             (if truthy (status_callback tw) then status_callback tw else None)\<rparr>
            in case create params of
                 Created sid \<Rightarrow>
                   (\<lparr>success = True, message_sid = Some sid, error = None,
                     blocked_reason = None, deferred_until = None\<rparr>, [params])
               | TwilioRestException m \<Rightarrow> (failure (TwilioError m) None None, [params])
               | OtherException m \<Rightarrow> (failure (UnexpectedError m) None None, [params])))"

definition send_sms ::
  "twilio \<Rightarrow> clock \<Rightarrow> contact list \<Rightarrow> send_sms_request \<Rightarrow>
   send_sms_response \<times> twilio_message list" where
  "send_sms tw clk cs request =
     (case client tw of
        None \<Rightarrow> (failure ClientNotConfigured None None, [])
      | Some create \<Rightarrow>
          (case lookup_contact cs request of
             Some c \<Rightarrow>
               if dnd c then (failure ContactOnDndList (Some ''dnd'') None, [])
               else if sms_dnd c then (failure ContactHasSmsDnd (Some ''dnd_sms'') None, [])
               else send_after_gate create tw clk (Some c) request
           | None \<Rightarrow> send_after_gate create tw clk None request))"

section \<open>The inbound webhook (api/twilio\_webhooks.py)\<close>

text \<open>
  The tables the webhook reads and writes, and the provider calls made so far.
\<close>

record world =
  contacts :: "contact list"
  conversations :: "conversation list"
  messages :: "message list"
  outbox_rows :: outbox
  twilio_calls :: "twilio_message list"

text \<open>
  What the webhook takes from outside: the Twilio client and the clock, the table of
  Twilio numbers (\<open>get_location_id_from_twilio_number\<close>), the routing flag, the
  database's \<open>NOW()\<close> and the ids it gives to a new contact and a new conversation.
\<close>

record webhook_env =
  env_twilio :: twilio
  env_clock :: clock
  location_of_number :: "string \<Rightarrow> string option"
  ALLOW_TWILIO_FALLBACK_ROUTING :: bool
  env_now :: int
  new_contact_id :: string
  new_conversation_id :: string

definition create_message :: "world \<Rightarrow> message \<Rightarrow> world" where
  "create_message w m = w\<lparr>messages := messages w @ [m]\<rparr>"





text \<open>A confirmation, as both the opt-out and the opt-in branch send it: through
  \<open>send_sms\<close>, with the id of the contact; the outbound message is recorded when the send
  succeeded.\<close>

definition send_confirmation ::
  "webhook_env \<Rightarrow> world \<Rightarrow> contact \<Rightarrow> conversation \<Rightarrow> string \<Rightarrow> string \<Rightarrow> string \<Rightarrow> world" where
  "send_confirmation env w c cv sender loc text =
     (let request = \<lparr>sms_to = sender, sms_body = text, sms_location_id = loc,
                      sms_contact_id = Some (contact_id c),
                      sms_conversation_id = Some (conv_id cv)\<rparr>;
          (response, calls) = send_sms (env_twilio env) (env_clock env) (contacts w) request;
          w' = w\<lparr>twilio_calls := twilio_calls w @ calls\<rparr>
      in if success response
         then create_message w'
                \<lparr>m_conversation_id = conv_id cv, m_contact_id = contact_id c,
                 m_direction = ''outbound'', m_body = text, m_status = ''queued'',
                 m_external_id = message_sid response\<rparr>
         else w')"







section \<open>Sample data\<close>

text \<open>A clock on which it is \<open>h\<close> o'clock (and half past) in every zone, and an outbox row
  for a contact, with a given id, destination and status.\<close>

definition sample_clock :: "int \<Rightarrow> clock" where
  "sample_clock h =
     \<lparr>known_timezone = (\<lambda>z. z = ''America/New_York'' \<or> z = ''America/Chicago''),
      local_now = (\<lambda>z. \<lparr>ld_day = 0, ld_hour = h, ld_minute = 30, ld_second = 0,
                          ld_microsecond = 0\<rparr>),
      to_utc = (\<lambda>z d. 86400 * ld_day d + 3600 * ld_hour d + 60 * ld_minute d + ld_second d)\<rparr>"

definition sample_row :: "string \<Rightarrow> string \<Rightarrow> OutboxStatus \<Rightarrow> string \<Rightarrow> outbox_row" where
  "sample_row rid dest st cid =
     \<lparr>row_id = rid, object_type = ''client_notification'', object_id = cid,
      destination = dest, destination_config = [],
      payload = [(''contact_id'', cid), (''body'', ''hello'')],
      idempotency_key = None, status = st, attempt_count = 1, max_attempts = 5,
      last_error = None, last_error_at = None, next_attempt_at = 0, created_at = 0,
      updated_at = 0, sent_at = None\<rparr>"

text \<open>A Twilio client that accepts every message, a contact with a phone number in New
  York, and a webhook environment that routes every number to location \<open>L1\<close>.\<close>

definition sample_twilio :: twilio where
  "sample_twilio =
     \<lparr>client = Some (\<lambda>m. Created ''SM1''), from_number = ''+15550001111'',
      status_callback = None\<rparr>"

definition sample_contact :: "bool \<Rightarrow> (string \<times> bool) list \<Rightarrow> contact" where
  "sample_contact d settings =
     \<lparr>contact_id = ''c1'', location_id = ''L1'', phone = Some ''+12125551234'', dnd = d,
      dnd_settings = settings, tags = []\<rparr>"

definition sample_request :: "string option \<Rightarrow> send_sms_request" where
  "sample_request cid =
     \<lparr>sms_to = ''+12125551234'', sms_body = ''hello'', sms_location_id = ''L1'',
      sms_contact_id = cid, sms_conversation_id = None\<rparr>"



section \<open>Opt-out detection: negations come first\<close>

text \<open>The two string tests of the model mean what Python's \<open>startswith\<close> and \<open>in\<close> mean:
  a prefix, and a contiguous substring.\<close>

lemma startswith_iff: "startswith s p \<longleftrightarrow> (\<exists>t. s = p @ t)"
  by (induction s p rule: startswith.induct) auto

lemma contains_iff: "contains p s \<longleftrightarrow> (\<exists>a b. s = a @ p @ b)"
proof (induction s)
  case Nil
  then show ?case by auto
next
  case (Cons c cs)
  have "(\<exists>a b. c # cs = a @ p @ b) \<longleftrightarrow> (\<exists>t. c # cs = p @ t) \<or> (\<exists>a b. cs = a @ p @ b)"
  proof
    assume "\<exists>a b. c # cs = a @ p @ b"
    then obtain a b where ab: "c # cs = a @ p @ b" by blast
    show "(\<exists>t. c # cs = p @ t) \<or> (\<exists>a b. cs = a @ p @ b)"
    proof (cases a)
      case Nil
      with ab show ?thesis by auto
    next
      case (Cons x a')
      with ab have "cs = a' @ p @ b" by simp
      then show ?thesis by blast
    qed
  next
    assume "(\<exists>t. c # cs = p @ t) \<or> (\<exists>a b. cs = a @ p @ b)"
    then show "\<exists>a b. c # cs = a @ p @ b"
    proof
      assume "\<exists>t. c # cs = p @ t"
      then obtain t where "c # cs = [] @ p @ t" by auto
      then show ?thesis by blast
    next
      assume "\<exists>a b. cs = a @ p @ b"
      then obtain a b where "cs = a @ p @ b" by blast
      then have "c # cs = (c # a) @ p @ b" by simp
      then show ?thesis by blast
    qed
  qed
  with Cons show ?case by (simp add: startswith_iff)
qed

text \<open>A negation phrase in the normalised text ends \<open>is_optout\<close> with False before any
  keyword is looked at.\<close>

lemma negation_returns_False:
  "list_ex (\<lambda>negation. contains negation (strip (lower message))) OPT_OUT_NEGATIONS \<Longrightarrow>
   \<not> is_optout message"
  by (simp add: is_optout_def Let_def)

text \<open>
  Claim C8. Whenever the lowercased and trimmed text contains one of the fixed negation
  phrases, \<open>is_optout\<close> returns False, whatever opt-out keywords the text also holds; and
  on the four messages of the specification it returns False for "don't stop texting",
  True for "stop texting me", True for "STOP" and False for
  "can we stop by your office?".
\<close>

theorem is_optout_negation_precedence:
  "(\<forall>message.
      (\<exists>negation \<in> set OPT_OUT_NEGATIONS. \<exists>a b. strip (lower message) = a @ negation @ b)
        \<longrightarrow> is_optout message = False) \<and>
   is_optout ''don't stop texting'' = False \<and>
   is_optout ''stop texting me'' = True \<and>
   is_optout ''STOP'' = True \<and>
   is_optout ''can we stop by your office?'' = False"
proof -
  have neg: "\<forall>message.
      (\<exists>negation \<in> set OPT_OUT_NEGATIONS. \<exists>a b. strip (lower message) = a @ negation @ b)
        \<longrightarrow> is_optout message = False"
  proof (intro allI impI)
    fix message
    assume "\<exists>negation \<in> set OPT_OUT_NEGATIONS. \<exists>a b. strip (lower message) = a @ negation @ b"
    then have "list_ex (\<lambda>negation. contains negation (strip (lower message))) OPT_OUT_NEGATIONS"
      by (simp add: list_ex_iff contains_iff)
    then show "is_optout message = False"
      using negation_returns_False by simp
  qed
  have e1: "is_optout ''don't stop texting'' = False" by code_simp
  have e2: "is_optout ''stop texting me'' = True" by code_simp
  have e3: "is_optout ''STOP'' = True" by code_simp
  have e4: "is_optout ''can we stop by your office?'' = False" by code_simp
  from neg e1 e2 e3 e4 show ?thesis by blast
qed

text \<open>The theorem applied to a message that holds both a negation and the keyword
  \<open>stop\<close>.\<close>

theorem is_optout_negation_precedence_witness:
  "(\<exists>negation \<in> set OPT_OUT_NEGATIONS.
      \<exists>a b. strip (lower ''Please DON'T remove me, stop later'') = a @ negation @ b) \<and>
   is_optout ''Please DON'T remove me, stop later'' = False"
proof -
  have s: "strip (lower ''Please DON'T remove me, stop later'')
             = ''please '' @ ''don't remove'' @ '' me, stop later''"
    by code_simp
  have m: "''don't remove'' \<in> set OPT_OUT_NEGATIONS"
    by (simp add: OPT_OUT_NEGATIONS_def)
  from s m have h: "\<exists>negation \<in> set OPT_OUT_NEGATIONS.
      \<exists>a b. strip (lower ''Please DON'T remove me, stop later'') = a @ negation @ b"
    by blast
  with is_optout_negation_precedence show ?thesis by blast
qed

section \<open>Quiet hours\<close>



section \<open>The outbox: retry schedule\<close>

text \<open>
  Claim C2. \<open>mark_outbox_failed\<close> called with attempt number 1 on any table: the rows
  with the given id get status \<open>failed\<close> and \<open>next_attempt_at = now + 300\<close> seconds. The
  table is indexed by the attempt number itself, so the delay is its second entry and
  not the first entry of 60 seconds.
\<close>

theorem mark_outbox_failed_first_attempt:
  "mark_outbox_failed tbl now outbox_id err 1 =
     Some (sql_update (\<lambda>r. row_id r = outbox_id)
       (\<lambda>r. r\<lparr>status := FAILED, last_error := Some err, last_error_at := Some now,
               next_attempt_at := now + 300, updated_at := now\<rparr>) tbl)"
  by (simp add: mark_outbox_failed_def backoff_seconds_def RETRY_BACKOFF_def py_index_def
      failed_status_def)

text \<open>The delays the code gives to the attempt numbers 1 to 5, and the status.\<close>

lemma backoff_seconds_schedule:
  "map backoff_seconds [1, 2, 3, 4, 5] = [Some 300, Some 900, Some 1800, Some 3600, Some 3600]"
  by (simp add: backoff_seconds_def RETRY_BACKOFF_def py_index_def)

lemma failed_status_threshold:
  "failed_status n = DEAD_LETTER \<longleftrightarrow> n \<ge> 5"
  by (simp add: failed_status_def)

section \<open>The outbox: updates by id and by contact\<close>

text \<open>An update keeps the number and the order of the rows and rewrites exactly the rows
  its condition selects.\<close>

lemma length_sql_update: "length (sql_update c f tbl) = length tbl"
  by (simp add: sql_update_def)

lemma nth_sql_update:
  "i < length tbl \<Longrightarrow> sql_update c f tbl ! i = (if c (tbl ! i) then f (tbl ! i) else tbl ! i)"
  by (simp add: sql_update_def)

lemma sql_update_none: "\<forall>r \<in> set tbl. \<not> c r \<Longrightarrow> sql_update c f tbl = tbl"
  by (induction tbl) (auto simp: sql_update_def)

text \<open>
  Claim C3, as stated, fails: replaying an item that was already sent is not an error.
  \<open>replay_outbox_item\<close> returns True and the item is \<open>pending\<close> again.
\<close>

theorem replay_outbox_item_sent_counterexample:
  "fst (replay_outbox_item [sample_row ''a'' ''sms'' SENT ''c1''] 100 ''a'') = True \<and>
   map status (snd (replay_outbox_item [sample_row ''a'' ''sms'' SENT ''c1''] 100 ''a''))
     = [PENDING] \<and>
   snd (replay_outbox_item [sample_row ''a'' ''sms'' SENT ''c1''] 100 ''a'')
     \<noteq> [sample_row ''a'' ''sms'' SENT ''c1'']"
  by (simp add: replay_outbox_item_def sql_update_def sample_row_def)

text \<open>
  Claim C3, amended. \<open>replay_outbox_item\<close> selects by id alone: every row with the given
  id, whatever its status, becomes \<open>pending\<close> with \<open>attempt_count = 0\<close> and
  \<open>next_attempt_at = now\<close> (its other columns but \<open>updated_at\<close> are kept), every other
  row is unchanged, and the result is True exactly when a row has that id; when it is
  False the table is unchanged.
\<close>

theorem replay_outbox_item_any_status:
  "length (snd (replay_outbox_item tbl now outbox_id)) = length tbl \<and>
   fst (replay_outbox_item tbl now outbox_id) = (\<exists>r \<in> set tbl. row_id r = outbox_id) \<and>
   (\<forall>i < length tbl. row_id (tbl ! i) = outbox_id \<longrightarrow>
      snd (replay_outbox_item tbl now outbox_id) ! i
        = (tbl ! i)\<lparr>status := PENDING, attempt_count := 0, next_attempt_at := now,
                     updated_at := now\<rparr> \<and>
      status (snd (replay_outbox_item tbl now outbox_id) ! i) = PENDING \<and>
      attempt_count (snd (replay_outbox_item tbl now outbox_id) ! i) = 0 \<and>
      next_attempt_at (snd (replay_outbox_item tbl now outbox_id) ! i) = now) \<and>
   (\<forall>i < length tbl. row_id (tbl ! i) \<noteq> outbox_id \<longrightarrow>
      snd (replay_outbox_item tbl now outbox_id) ! i = tbl ! i) \<and>
   (fst (replay_outbox_item tbl now outbox_id) = False \<longrightarrow>
      snd (replay_outbox_item tbl now outbox_id) = tbl)"
proof -
  have a: "length (snd (replay_outbox_item tbl now outbox_id)) = length tbl"
    by (simp add: replay_outbox_item_def length_sql_update)
  have b: "fst (replay_outbox_item tbl now outbox_id) = (\<exists>r \<in> set tbl. row_id r = outbox_id)"
    by (simp add: replay_outbox_item_def list_ex_iff)
  have c: "\<forall>i < length tbl. row_id (tbl ! i) = outbox_id \<longrightarrow>
      snd (replay_outbox_item tbl now outbox_id) ! i
        = (tbl ! i)\<lparr>status := PENDING, attempt_count := 0, next_attempt_at := now,
                     updated_at := now\<rparr> \<and>
      status (snd (replay_outbox_item tbl now outbox_id) ! i) = PENDING \<and>
      attempt_count (snd (replay_outbox_item tbl now outbox_id) ! i) = 0 \<and>
      next_attempt_at (snd (replay_outbox_item tbl now outbox_id) ! i) = now"
    by (simp add: replay_outbox_item_def nth_sql_update)
  have d: "\<forall>i < length tbl. row_id (tbl ! i) \<noteq> outbox_id \<longrightarrow>
      snd (replay_outbox_item tbl now outbox_id) ! i = tbl ! i"
    by (simp add: replay_outbox_item_def nth_sql_update)
  have e: "fst (replay_outbox_item tbl now outbox_id) = False \<longrightarrow>
      snd (replay_outbox_item tbl now outbox_id) = tbl"
    by (simp add: replay_outbox_item_def list_ex_iff sql_update_none)
  from a b c d e show ?thesis by blast
qed

text \<open>The theorem on a table with a row in \<open>sending\<close> and a dead letter, replaying the
  dead letter, and replaying an id that no row has.\<close>

theorem replay_outbox_item_any_status_witness:
  "(1::nat) < length [sample_row ''a'' ''sms'' SENDING ''c1'', sample_row ''b'' ''sms'' DEAD_LETTER ''c1''] \<and>
   row_id ([sample_row ''a'' ''sms'' SENDING ''c1'', sample_row ''b'' ''sms'' DEAD_LETTER ''c1''] ! 1) = ''b'' \<and>
   status (snd (replay_outbox_item
     [sample_row ''a'' ''sms'' SENDING ''c1'', sample_row ''b'' ''sms'' DEAD_LETTER ''c1'']
     100 ''b'') ! 1) = PENDING \<and>
   attempt_count (snd (replay_outbox_item
     [sample_row ''a'' ''sms'' SENDING ''c1'', sample_row ''b'' ''sms'' DEAD_LETTER ''c1'']
     100 ''b'') ! 1) = 0 \<and>
   (0::nat) < length [sample_row ''a'' ''sms'' SENDING ''c1'', sample_row ''b'' ''sms'' DEAD_LETTER ''c1''] \<and>
   row_id ([sample_row ''a'' ''sms'' SENDING ''c1'', sample_row ''b'' ''sms'' DEAD_LETTER ''c1''] ! 0) \<noteq> ''b'' \<and>
   snd (replay_outbox_item
     [sample_row ''a'' ''sms'' SENDING ''c1'', sample_row ''b'' ''sms'' DEAD_LETTER ''c1'']
     100 ''b'') ! 0 = sample_row ''a'' ''sms'' SENDING ''c1'' \<and>
   fst (replay_outbox_item [sample_row ''a'' ''sms'' SENDING ''c1''] 100 ''zz'') = False \<and>
   snd (replay_outbox_item [sample_row ''a'' ''sms'' SENDING ''c1''] 100 ''zz'')
     = [sample_row ''a'' ''sms'' SENDING ''c1'']"
proof -
  have r: "row_id (sample_row ''a'' ''sms'' SENDING ''c1'') = ''a''"
          "row_id (sample_row ''b'' ''sms'' DEAD_LETTER ''c1'') = ''b''"
    by (simp_all add: sample_row_def)
  have f: "fst (replay_outbox_item [sample_row ''a'' ''sms'' SENDING ''c1''] 100 ''zz'') = False"
    by (simp add: replay_outbox_item_def r)
  show ?thesis
    using r f
      replay_outbox_item_any_status
        [of "[sample_row ''a'' ''sms'' SENDING ''c1'', sample_row ''b'' ''sms'' DEAD_LETTER ''c1'']"
            100 "''b''"]
      replay_outbox_item_any_status [of "[sample_row ''a'' ''sms'' SENDING ''c1'']" 100 "''zz''"]
    by simp
qed

text \<open>
  Claim C4, as stated, fails: a pending item for the contact whose destination is
  \<open>email\<close> is not cancelled, and the count returned is 0.
\<close>

theorem cancel_pending_outbox_email_counterexample:
  "cancel_pending_outbox_for_contact [sample_row ''a'' ''email'' PENDING ''c1''] 100 ''c1''
     = (0, [sample_row ''a'' ''email'' PENDING ''c1''])"
  by (simp add: cancel_pending_outbox_for_contact_def cancel_cond_def sql_update_def sample_row_def)

text \<open>
  Claim C4, amended. \<open>cancel_pending_outbox_for_contact\<close> rewrites exactly the rows
  whose status is \<open>pending\<close> or \<open>failed\<close>, whose destination is \<open>sms\<close> and whose
  payload holds the given \<open>contact_id\<close>: they become \<open>cancelled\<close>. Every other row (a
  row in \<open>sending\<close>, a row for another destination, a row of another contact) is
  unchanged, and the number returned is the number of rows rewritten.
\<close>

theorem cancel_pending_outbox_sms_only:
  "length (snd (cancel_pending_outbox_for_contact tbl now cid)) = length tbl \<and>
   (\<forall>i < length tbl.
      (status (tbl ! i) = PENDING \<or> status (tbl ! i) = FAILED) \<and>
      destination (tbl ! i) = ''sms'' \<and>
      map_of (payload (tbl ! i)) ''contact_id'' = Some cid \<longrightarrow>
      snd (cancel_pending_outbox_for_contact tbl now cid) ! i
        = (tbl ! i)\<lparr>status := CANCELLED, updated_at := now\<rparr>) \<and>
   (\<forall>i < length tbl.
      \<not> ((status (tbl ! i) = PENDING \<or> status (tbl ! i) = FAILED) \<and>
         destination (tbl ! i) = ''sms'' \<and>
         map_of (payload (tbl ! i)) ''contact_id'' = Some cid) \<longrightarrow>
      snd (cancel_pending_outbox_for_contact tbl now cid) ! i = tbl ! i) \<and>
   fst (cancel_pending_outbox_for_contact tbl now cid)
     = length (filter (\<lambda>r. (status r = PENDING \<or> status r = FAILED) \<and>
                            destination r = ''sms'' \<and>
                            map_of (payload r) ''contact_id'' = Some cid) tbl)"
proof -
  have a: "length (snd (cancel_pending_outbox_for_contact tbl now cid)) = length tbl"
    by (simp add: cancel_pending_outbox_for_contact_def length_sql_update)
  have b: "\<forall>i < length tbl.
      (status (tbl ! i) = PENDING \<or> status (tbl ! i) = FAILED) \<and>
      destination (tbl ! i) = ''sms'' \<and>
      map_of (payload (tbl ! i)) ''contact_id'' = Some cid \<longrightarrow>
      snd (cancel_pending_outbox_for_contact tbl now cid) ! i
        = (tbl ! i)\<lparr>status := CANCELLED, updated_at := now\<rparr>"
    by (auto simp: cancel_pending_outbox_for_contact_def nth_sql_update cancel_cond_def)
  have c: "\<forall>i < length tbl.
      \<not> ((status (tbl ! i) = PENDING \<or> status (tbl ! i) = FAILED) \<and>
         destination (tbl ! i) = ''sms'' \<and>
         map_of (payload (tbl ! i)) ''contact_id'' = Some cid) \<longrightarrow>
      snd (cancel_pending_outbox_for_contact tbl now cid) ! i = tbl ! i"
    by (auto simp: cancel_pending_outbox_for_contact_def nth_sql_update cancel_cond_def)
  have d: "fst (cancel_pending_outbox_for_contact tbl now cid)
     = length (filter (\<lambda>r. (status r = PENDING \<or> status r = FAILED) \<and>
                            destination r = ''sms'' \<and>
                            map_of (payload r) ''contact_id'' = Some cid) tbl)"
    by (simp add: cancel_pending_outbox_for_contact_def cancel_cond_def [abs_def])
  from a b c d show ?thesis by blast
qed


text \<open>The theorem on a table with two cancellable rows of contact \<open>c1\<close>, one row of
  \<open>c1\<close> in \<open>sending\<close> and one pending row of another contact.\<close>

theorem cancel_pending_outbox_sms_only_witness:
  "(0::nat) < length [sample_row ''a'' ''sms'' PENDING ''c1'', sample_row ''b'' ''sms'' SENDING ''c1'',
       sample_row ''c'' ''sms'' FAILED ''c1'', sample_row ''d'' ''sms'' PENDING ''c2''] \<and>
   map status (snd (cancel_pending_outbox_for_contact
      [sample_row ''a'' ''sms'' PENDING ''c1'', sample_row ''b'' ''sms'' SENDING ''c1'',
       sample_row ''c'' ''sms'' FAILED ''c1'', sample_row ''d'' ''sms'' PENDING ''c2''] 100 ''c1''))
     = [CANCELLED, SENDING, CANCELLED, PENDING] \<and>
   fst (cancel_pending_outbox_for_contact
      [sample_row ''a'' ''sms'' PENDING ''c1'', sample_row ''b'' ''sms'' SENDING ''c1'',
       sample_row ''c'' ''sms'' FAILED ''c1'', sample_row ''d'' ''sms'' PENDING ''c2''] 100 ''c1'') = 2"
proof -
  let ?tbl = "[sample_row ''a'' ''sms'' PENDING ''c1'', sample_row ''b'' ''sms'' SENDING ''c1'',
       sample_row ''c'' ''sms'' FAILED ''c1'', sample_row ''d'' ''sms'' PENDING ''c2'']"
  let ?res = "snd (cancel_pending_outbox_for_contact ?tbl 100 ''c1'')"
  note T = cancel_pending_outbox_sms_only [of ?tbl 100 "''c1''"]
  have len: "length ?res = 4" using T by simp
  have r0: "?res ! 0 = (sample_row ''a'' ''sms'' PENDING ''c1'')\<lparr>status := CANCELLED, updated_at := 100\<rparr>"
    using T by (simp add: sample_row_def)
  have r1: "?res ! 1 = sample_row ''b'' ''sms'' SENDING ''c1''"
    using T by (simp add: sample_row_def)
  have r2: "?res ! 2 = (sample_row ''c'' ''sms'' FAILED ''c1'')\<lparr>status := CANCELLED, updated_at := 100\<rparr>"
    using T by (simp add: sample_row_def)
  have r3: "?res ! 3 = sample_row ''d'' ''sms'' PENDING ''c2''"
    using T by (simp add: sample_row_def)
  have st: "map status ?res = [CANCELLED, SENDING, CANCELLED, PENDING]"
    using len r0 r1 r2 r3
    by (intro nth_equalityI) (auto simp: less_Suc_eq numeral_eq_Suc sample_row_def)
  have cnt: "fst (cancel_pending_outbox_for_contact ?tbl 100 ''c1'') = 2"
    using T by (simp add: sample_row_def)
  from st cnt show ?thesis by simp
qed

section \<open>The outbox: the status enum, and which rows are claimed\<close>

text \<open>
  Claim C6, as stated, fails: \<open>blocked\<close> is not a value of the status enum.
\<close>

theorem OutboxStatus_blocked_counterexample:
  "OutboxStatus_of_value ''blocked'' = None"
  by (simp add: OutboxStatus_of_value_def OutboxStatus_members_def)

text \<open>Ordering and the limit only drop or move rows: what is claimed is claimable.\<close>

lemma get_pending_subset:
  "set (get_pending_outbox_items tbl now limit) \<subseteq> set (filter (claimable now) tbl)"
proof -
  have "set (take limit (sort_key next_attempt_at (filter (claimable now) tbl)))
          \<subseteq> set (sort_key next_attempt_at (filter (claimable now) tbl))"
    by (rule set_take_subset)
  then show ?thesis by (simp add: get_pending_outbox_items_def)
qed

text \<open>
  Claim C6, amended. The status is the closed enum of the six values \<open>pending\<close>,
  \<open>sending\<close>, \<open>sent\<close>, \<open>failed\<close>, \<open>dead_letter\<close> and \<open>cancelled\<close>; and
  \<open>get_pending_outbox_items\<close> returns only rows of the table whose status is \<open>pending\<close>
  or \<open>failed\<close>, so a row in any other status is never picked up for a retry.
\<close>

theorem OutboxStatus_closed_enum:
  "set OutboxStatus_members = UNIV \<and>
   map status_value OutboxStatus_members
     = [''pending'', ''sending'', ''sent'', ''failed'', ''dead_letter'', ''cancelled''] \<and>
   (\<forall>r \<in> set (get_pending_outbox_items tbl now limit).
      r \<in> set tbl \<and> (status r = PENDING \<or> status r = FAILED))"
proof -
  have a: "set OutboxStatus_members = UNIV"
  proof
    show "set OutboxStatus_members \<subseteq> UNIV" by simp
    show "UNIV \<subseteq> set OutboxStatus_members"
    proof
      fix s :: OutboxStatus
      show "s \<in> set OutboxStatus_members"
        by (cases s) (simp_all add: OutboxStatus_members_def)
    qed
  qed
  have b: "map status_value OutboxStatus_members
     = [''pending'', ''sending'', ''sent'', ''failed'', ''dead_letter'', ''cancelled'']"
    by (simp add: OutboxStatus_members_def)
  have c: "\<forall>r \<in> set (get_pending_outbox_items tbl now limit).
      r \<in> set tbl \<and> (status r = PENDING \<or> status r = FAILED)"
    using get_pending_subset [of tbl now limit] by (auto simp: claimable_def)
  from a b c show ?thesis by blast
qed

text \<open>The theorem on a table with a dead letter, a failed, a sent and a cancelled row, all
  due: only the failed row is claimed.\<close>

theorem OutboxStatus_closed_enum_witness:
  "get_pending_outbox_items
     [sample_row ''a'' ''sms'' DEAD_LETTER ''c1'', sample_row ''b'' ''sms'' FAILED ''c1'',
      sample_row ''c'' ''sms'' SENT ''c1'', sample_row ''d'' ''sms'' CANCELLED ''c1''] 100 50
     = [sample_row ''b'' ''sms'' FAILED ''c1''] \<and>
   sample_row ''b'' ''sms'' FAILED ''c1'' \<in> set
     [sample_row ''a'' ''sms'' DEAD_LETTER ''c1'', sample_row ''b'' ''sms'' FAILED ''c1'',
      sample_row ''c'' ''sms'' SENT ''c1'', sample_row ''d'' ''sms'' CANCELLED ''c1''] \<and>
   status (sample_row ''b'' ''sms'' FAILED ''c1'') = FAILED"
proof -
  let ?tbl = "[sample_row ''a'' ''sms'' DEAD_LETTER ''c1'', sample_row ''b'' ''sms'' FAILED ''c1'',
      sample_row ''c'' ''sms'' SENT ''c1'', sample_row ''d'' ''sms'' CANCELLED ''c1'']"
  have g: "get_pending_outbox_items ?tbl 100 50 = [sample_row ''b'' ''sms'' FAILED ''c1'']"
    by (simp add: get_pending_outbox_items_def claimable_def sample_row_def)
  have "sample_row ''b'' ''sms'' FAILED ''c1'' \<in> set (get_pending_outbox_items ?tbl 100 50)"
    using g by simp
  with OutboxStatus_closed_enum [of ?tbl 100 50]
  have "sample_row ''b'' ''sms'' FAILED ''c1'' \<in> set ?tbl \<and>
        (status (sample_row ''b'' ''sms'' FAILED ''c1'') = PENDING \<or>
         status (sample_row ''b'' ''sms'' FAILED ''c1'') = FAILED)"
    by blast
  with g show ?thesis by (simp add: sample_row_def)
qed

section \<open>The outbox: idempotent enqueue\<close>

lemma find_append_new:
  "find P tbl = None \<Longrightarrow> P x \<Longrightarrow> find P (tbl @ [x]) = Some x"
  by (induction tbl) (auto split: if_splits)

lemma find_sql_update_key:
  "find (\<lambda>r. idempotency_key r = key) tbl = Some r \<Longrightarrow>
   find (\<lambda>r. idempotency_key r = key)
     (sql_update (\<lambda>x. idempotency_key x = key) (\<lambda>x. x\<lparr>updated_at := t\<rparr>) tbl)
     = Some (r\<lparr>updated_at := t\<rparr>)"
  by (induction tbl) (auto simp: sql_update_def split: if_splits)

lemma filter_sql_update_key:
  "length (filter (\<lambda>r. idempotency_key r = key)
     (sql_update (\<lambda>x. idempotency_key x = key) (\<lambda>x. x\<lparr>updated_at := t\<rparr>) tbl))
   = length (filter (\<lambda>r. idempotency_key r = key) tbl)"
  by (induction tbl) (auto simp: sql_update_def)

lemma find_None_filter: "find P tbl = None \<Longrightarrow> filter P tbl = []"
  by (induction tbl) (auto split: if_splits)

lemma find_Some_filter: "find P tbl = Some r \<Longrightarrow> 1 \<le> length (filter P tbl)"
  by (induction tbl) (auto split: if_splits)

text \<open>After an enqueue with key k, the first row carrying k is the row whose id was
  returned, and k is carried by exactly as many rows as before, or by one if by none.\<close>

lemma enqueue_outbox_with_key:
  assumes "enqueue_outbox tbl now new_id otype oid dest pl config (Some k) = (rid, tbl')"
  shows "\<exists>r. find (\<lambda>r. idempotency_key r = Some k) tbl' = Some r \<and> row_id r = rid"
    and "length (filter (\<lambda>r. idempotency_key r = Some k) tbl')
           = max 1 (length (filter (\<lambda>r. idempotency_key r = Some k) tbl))"
proof -
  let ?P = "\<lambda>r. idempotency_key r = Some k"
  show "\<exists>r. find ?P tbl' = Some r \<and> row_id r = rid"
  proof (cases "find ?P tbl")
    case None
    with assms show ?thesis
      by (auto simp: enqueue_outbox_def Let_def new_row_def find_append_new)
  next
    case (Some r)
    with assms show ?thesis
      by (auto simp: enqueue_outbox_def Let_def find_sql_update_key)
  qed
  show "length (filter ?P tbl') = max 1 (length (filter ?P tbl))"
  proof (cases "find ?P tbl")
    case None
    with assms show ?thesis
      by (auto simp: enqueue_outbox_def Let_def new_row_def find_None_filter)
  next
    case (Some r)
    from Some have "1 \<le> length (filter ?P tbl)" by (rule find_Some_filter)
    with Some assms show ?thesis
      by (auto simp: enqueue_outbox_def Let_def filter_sql_update_key)
  qed
qed

text \<open>
  Claim C7. Two calls of \<open>enqueue_outbox\<close> with the same non-null idempotency key \<open>k\<close>,
  all other arguments arbitrary: the second call returns the id the first returned and
  inserts nothing; it only sets \<open>updated_at\<close> on the row carrying \<open>k\<close>. When at most one
  row carried \<open>k\<close> before the first call (the unique index on the key), exactly one row
  carries it afterwards.
\<close>

theorem enqueue_outbox_idempotent:
  assumes first: "enqueue_outbox tbl now1 new_id1 otype1 oid1 dest1 pl1 config1 (Some k) = (id1, tbl1)"
    and second: "enqueue_outbox tbl1 now2 new_id2 otype2 oid2 dest2 pl2 config2 (Some k) = (id2, tbl2)"
  shows "id2 = id1 \<and>
         length tbl2 = length tbl1 \<and>
         tbl2 = sql_update (\<lambda>r. idempotency_key r = Some k) (\<lambda>r. r\<lparr>updated_at := now2\<rparr>) tbl1 \<and>
         map row_id tbl2 = map row_id tbl1 \<and>
         (length (filter (\<lambda>r. idempotency_key r = Some k) tbl) \<le> 1 \<longrightarrow>
            length (filter (\<lambda>r. idempotency_key r = Some k) tbl2) = 1)"
proof -
  let ?P = "\<lambda>r. idempotency_key r = Some k"
  from enqueue_outbox_with_key(1) [OF first]
  obtain r where r: "find ?P tbl1 = Some r" "row_id r = id1" by blast
  from second r have id: "id2 = id1"
    by (simp add: enqueue_outbox_def Let_def)
  from second r have upd: "tbl2 = sql_update ?P (\<lambda>r. r\<lparr>updated_at := now2\<rparr>) tbl1"
    by (simp add: enqueue_outbox_def Let_def)
  from upd have len: "length tbl2 = length tbl1"
    by (simp add: length_sql_update)
  from upd have ids: "map row_id tbl2 = map row_id tbl1"
    by (simp add: sql_update_def)
  have cnt: "length (filter ?P tbl) \<le> 1 \<longrightarrow> length (filter ?P tbl2) = 1"
    using enqueue_outbox_with_key(2) [OF first] enqueue_outbox_with_key(2) [OF second]
    by auto
  from id upd len ids cnt show ?thesis by blast
qed


text \<open>The theorem on an empty table, with two calls that agree on the key only.\<close>

theorem enqueue_outbox_idempotent_witness:
  "fst (enqueue_outbox [] 10 ''u1'' ''appointment'' ''ap1'' ''sms'' [(''body'', ''hi'')] None
          (Some ''k'')) = ''u1'' \<and>
   length (filter (\<lambda>r. idempotency_key r = Some ''k'') ([] :: outbox)) \<le> 1 \<and>
   fst (enqueue_outbox
          (snd (enqueue_outbox [] 10 ''u1'' ''appointment'' ''ap1'' ''sms'' [(''body'', ''hi'')] None
                  (Some ''k'')))
          20 ''u2'' ''reminder'' ''ap2'' ''email'' [] (Some [(''to'', ''x'')]) (Some ''k'')) = ''u1'' \<and>
   length (filter (\<lambda>r. idempotency_key r = Some ''k'')
     (snd (enqueue_outbox
          (snd (enqueue_outbox [] 10 ''u1'' ''appointment'' ''ap1'' ''sms'' [(''body'', ''hi'')] None
                  (Some ''k'')))
          20 ''u2'' ''reminder'' ''ap2'' ''email'' [] (Some [(''to'', ''x'')]) (Some ''k'')))) = 1"
proof -
  let ?first = "enqueue_outbox [] 10 ''u1'' ''appointment'' ''ap1'' ''sms'' [(''body'', ''hi'')] None
                  (Some ''k'')"
  let ?second = "enqueue_outbox (snd ?first) 20 ''u2'' ''reminder'' ''ap2'' ''email'' []
                   (Some [(''to'', ''x'')]) (Some ''k'')"
  have f: "?first = (fst ?first, snd ?first)" by simp
  have s: "?second = (fst ?second, snd ?second)" by simp
  have i: "fst ?first = ''u1''" by (simp add: enqueue_outbox_def)
  note T = enqueue_outbox_idempotent [OF f s]
  from T i have a: "fst ?second = ''u1''" by metis
  have h: "length (filter (\<lambda>r. idempotency_key r = Some ''k'') ([] :: outbox)) \<le> 1" by simp
  from T h have c: "length (filter (\<lambda>r. idempotency_key r = Some ''k'') (snd ?second)) = 1"
    by blast
  from i h a c show ?thesis by blast
qed

section \<open>The SMS sender: the DND gate\<close>

text \<open>
  Claim C1, as stated, fails: for a contact whose only flag is the channel flag
  \<open>dnd_settings['sms']\<close>, the block returned carries the reason \<open>dnd_sms\<close>, not \<open>dnd\<close>.
\<close>

theorem send_sms_channel_dnd_counterexample:
  "blocked_reason (fst (send_sms sample_twilio (sample_clock 14)
      [sample_contact False [(''sms'', True)]] (sample_request (Some ''c1'')))) = Some ''dnd_sms'' \<and>
   blocked_reason (fst (send_sms sample_twilio (sample_clock 14)
      [sample_contact False [(''sms'', True)]] (sample_request (Some ''c1'')))) \<noteq> Some ''dnd''"
  by code_simp

text \<open>
  Claim C1, amended. When the contact of a request is found and its \<open>dnd\<close> flag or its
  channel flag \<open>dnd_settings['sms']\<close> is set, \<open>send_sms\<close> never succeeds and never calls
  the provider, whatever the clock says. With a configured client the response is a
  block, with reason \<open>dnd\<close> for the global flag and \<open>dnd_sms\<close> for the channel flag
  alone, and it is not a deferral; without a configured client the configuration error is
  returned before any check.
\<close>

theorem send_sms_dnd_blocks:
  assumes found: "lookup_contact cs request = Some c"
    and flag: "dnd c \<or> map_of (dnd_settings c) ''sms'' = Some True"
  shows "snd (send_sms tw clk cs request) = [] \<and>
         success (fst (send_sms tw clk cs request)) = False \<and>
         (client tw \<noteq> None \<longrightarrow>
            blocked_reason (fst (send_sms tw clk cs request))
              = Some (if dnd c then ''dnd'' else ''dnd_sms'') \<and>
            deferred_until (fst (send_sms tw clk cs request)) = None) \<and>
         (client tw = None \<longrightarrow>
            fst (send_sms tw clk cs request) = failure ClientNotConfigured None None)"
proof (cases "client tw")
  case None
  then show ?thesis by (simp add: send_sms_def failure_def)
next
  case (Some create)
  from flag have "dnd c \<or> sms_dnd c" by (auto simp: sms_dnd_def)
  with Some found show ?thesis by (auto simp: send_sms_def failure_def)
qed

text \<open>The theorem for a contact on the global DND list, found by its id, and for a
  contact with the channel flag only, found by its phone number.\<close>

theorem send_sms_dnd_blocks_witness:
  "lookup_contact [sample_contact True []] (sample_request (Some ''c1''))
     = Some (sample_contact True []) \<and>
   dnd (sample_contact True []) \<and>
   client sample_twilio \<noteq> None \<and>
   snd (send_sms sample_twilio (sample_clock 14) [sample_contact True []]
          (sample_request (Some ''c1''))) = [] \<and>
   blocked_reason (fst (send_sms sample_twilio (sample_clock 14) [sample_contact True []]
          (sample_request (Some ''c1'')))) = Some ''dnd'' \<and>
   lookup_contact [sample_contact False [(''sms'', True)]] (sample_request None)
     = Some (sample_contact False [(''sms'', True)]) \<and>
   map_of (dnd_settings (sample_contact False [(''sms'', True)])) ''sms'' = Some True \<and>
   snd (send_sms sample_twilio (sample_clock 14) [sample_contact False [(''sms'', True)]]
          (sample_request None)) = [] \<and>
   blocked_reason (fst (send_sms sample_twilio (sample_clock 14)
          [sample_contact False [(''sms'', True)]] (sample_request None))) = Some ''dnd_sms''"
proof -
  have l1: "lookup_contact [sample_contact True []] (sample_request (Some ''c1''))
     = Some (sample_contact True [])"
    by code_simp
  have d1: "dnd (sample_contact True [])" by (simp add: sample_contact_def)
  have cl: "client sample_twilio \<noteq> None" by (simp add: sample_twilio_def)
  have l2: "lookup_contact [sample_contact False [(''sms'', True)]] (sample_request None)
     = Some (sample_contact False [(''sms'', True)])"
    by code_simp
  have d2: "map_of (dnd_settings (sample_contact False [(''sms'', True)])) ''sms'' = Some True"
    by (simp add: sample_contact_def)
  have n2: "\<not> dnd (sample_contact False [(''sms'', True)])" by (simp add: sample_contact_def)
  note A = send_sms_dnd_blocks [OF l1 disjI1 [OF d1], of sample_twilio "sample_clock 14"]
  note B = send_sms_dnd_blocks [OF l2 disjI2 [OF d2], of sample_twilio "sample_clock 14"]
  from A cl d1 have a1: "snd (send_sms sample_twilio (sample_clock 14) [sample_contact True []]
          (sample_request (Some ''c1''))) = []"
    and a2: "blocked_reason (fst (send_sms sample_twilio (sample_clock 14) [sample_contact True []]
          (sample_request (Some ''c1'')))) = Some ''dnd''"
    by simp_all
  from B cl n2 have b1: "snd (send_sms sample_twilio (sample_clock 14)
          [sample_contact False [(''sms'', True)]] (sample_request None)) = []"
    and b2: "blocked_reason (fst (send_sms sample_twilio (sample_clock 14)
          [sample_contact False [(''sms'', True)]] (sample_request None))) = Some ''dnd_sms''"
    by simp_all
  from l1 d1 cl a1 a2 l2 d2 b1 b2 show ?thesis by (intro conjI)
qed

text \<open>
  Claim C10. When the lookup of \<open>send_sms\<close> finds no contact, by id or by phone, the
  response is never a DND block; with a configured client the send goes on to the
  quiet-hours check, in the timezone inferred from the destination number, which defers
  the message without a provider call, and otherwise to exactly one provider call for
  the destination number.
\<close>

theorem send_sms_unknown_recipient:
  assumes unknown: "lookup_contact cs request = None"
  shows "blocked_reason (fst (send_sms tw clk cs request)) \<noteq> Some ''dnd'' \<and>
         blocked_reason (fst (send_sms tw clk cs request)) \<noteq> Some ''dnd_sms'' \<and>
         (\<forall>create. client tw = Some create \<longrightarrow>
            (if is_quiet_hours clk (fst (get_contact_timezone None (Some (sms_to request)) None))
                  21 8
             then send_sms tw clk cs request
                    = (failure
                         (QuietHoursActive
                            (get_next_send_time clk
                               (fst (get_contact_timezone None (Some (sms_to request)) None)) 8))
                         (Some ''quiet_hours'')
                         (Some (get_next_send_time clk
                                  (fst (get_contact_timezone None (Some (sms_to request)) None)) 8)),
                       [])
             else snd (send_sms tw clk cs request)
                    = [\<lparr>msg_body = sms_body request, msg_from = from_number tw,
                         msg_to = sms_to request,
                         msg_status_callback =
                           (if truthy (status_callback tw) then status_callback tw else None)\<rparr>] \<and>
                  blocked_reason (fst (send_sms tw clk cs request)) = None))"
proof -
  let ?tz = "fst (get_contact_timezone None (Some (sms_to request)) None)"
  have tz: "send_timezone None request = ?tz" by (simp add: send_timezone_def)
  have a: "blocked_reason (fst (send_sms tw clk cs request)) \<noteq> Some ''dnd'' \<and>
           blocked_reason (fst (send_sms tw clk cs request)) \<noteq> Some ''dnd_sms''"
    using unknown
    by (auto simp: send_sms_def send_after_gate_def failure_def Let_def
             split: option.splits create_result.splits)
  have b: "\<forall>create. client tw = Some create \<longrightarrow>
            (if is_quiet_hours clk ?tz 21 8
             then send_sms tw clk cs request
                    = (failure (QuietHoursActive (get_next_send_time clk ?tz 8))
                         (Some ''quiet_hours'') (Some (get_next_send_time clk ?tz 8)), [])
             else snd (send_sms tw clk cs request)
                    = [\<lparr>msg_body = sms_body request, msg_from = from_number tw,
                         msg_to = sms_to request,
                         msg_status_callback =
                           (if truthy (status_callback tw) then status_callback tw else None)\<rparr>] \<and>
                  blocked_reason (fst (send_sms tw clk cs request)) = None)"
    using unknown
    by (auto simp: send_sms_def send_after_gate_def failure_def Let_def tz
             DEFAULT_QUIET_START_def DEFAULT_QUIET_END_def
             split: create_result.splits)
  from a b show ?thesis by blast
qed


text \<open>The theorem with an empty contact table, at 14 o'clock (sent) and at 23 o'clock
  (deferred).\<close>

theorem send_sms_unknown_recipient_witness:
  "lookup_contact [] (sample_request None) = None \<and>
   client sample_twilio = Some (\<lambda>m. Created ''SM1'') \<and>
   snd (send_sms sample_twilio (sample_clock 14) [] (sample_request None))
     = [\<lparr>msg_body = ''hello'', msg_from = ''+15550001111'', msg_to = ''+12125551234'',
         msg_status_callback = None\<rparr>] \<and>
   blocked_reason (fst (send_sms sample_twilio (sample_clock 23) [] (sample_request None)))
     = Some ''quiet_hours'' \<and>
   snd (send_sms sample_twilio (sample_clock 23) [] (sample_request None)) = []"
proof -
  let ?tz = "fst (get_contact_timezone None (Some (sms_to (sample_request None))) None)"
  have l: "lookup_contact [] (sample_request None) = None" by code_simp
  have cl: "client sample_twilio = Some (\<lambda>m. Created ''SM1'')" by (simp add: sample_twilio_def)
  have q14: "\<not> is_quiet_hours (sample_clock 14) ?tz 21 8" by code_simp
  have q23: "is_quiet_hours (sample_clock 23) ?tz 21 8" by code_simp
  from send_sms_unknown_recipient [OF l, of sample_twilio "sample_clock 14"] cl q14
  have a: "snd (send_sms sample_twilio (sample_clock 14) [] (sample_request None))
     = [\<lparr>msg_body = sms_body (sample_request None), msg_from = from_number sample_twilio,
         msg_to = sms_to (sample_request None),
         msg_status_callback =
           (if truthy (status_callback sample_twilio) then status_callback sample_twilio
            else None)\<rparr>]"
    by simp
  have a': "snd (send_sms sample_twilio (sample_clock 14) [] (sample_request None))
     = [\<lparr>msg_body = ''hello'', msg_from = ''+15550001111'', msg_to = ''+12125551234'',
         msg_status_callback = None\<rparr>]"
    unfolding a by (simp add: sample_request_def sample_twilio_def truthy_def)
  from send_sms_unknown_recipient [OF l, of sample_twilio "sample_clock 23"] cl q23
  have b: "send_sms sample_twilio (sample_clock 23) [] (sample_request None)
             = (failure (QuietHoursActive (get_next_send_time (sample_clock 23) ?tz 8))
                  (Some ''quiet_hours'') (Some (get_next_send_time (sample_clock 23) ?tz 8)), [])"
    by simp
  have b1: "blocked_reason (fst (send_sms sample_twilio (sample_clock 23) [] (sample_request None)))
     = Some ''quiet_hours''"
    unfolding b by (simp add: failure_def)
  have b2: "snd (send_sms sample_twilio (sample_clock 23) [] (sample_request None)) = []"
    unfolding b by simp
  from l cl a' b1 b2 show ?thesis by (intro conjI)
qed

section \<open>The inbound webhook: the opt-out confirmation\<close>










lemma contacts_send_confirmation [simp]:
  "contacts (send_confirmation env w c cv sender loc text) = contacts w"
  by (simp add: send_confirmation_def create_message_def Let_def split: prod.splits)











end
